theory Spec2Isabelle
  imports Main
begin

section \<open>JavaScript values the middleware works with\<close>

text \<open>
  A string is the list of the bytes of its UTF-8 form, and \<open>===\<close> on strings is equality.
  A string is falsy exactly when it is empty, and \<open>undefined\<close> is falsy; an optional
  string is therefore truthy when it is some non-empty string.
\<close>

definition truthy :: "string option \<Rightarrow> bool" where
  "truthy v = (case v of None \<Rightarrow> False | Some s \<Rightarrow> s \<noteq> [])"

text \<open>\<open>Array.prototype.join\<close> on an array of strings.\<close>

fun join :: "string \<Rightarrow> string list \<Rightarrow> string" where
  "join sep [] = []"
| "join sep [x] = x"
| "join sep (x # y # ys) = x @ sep @ join sep (y # ys)"

text \<open>
  \<open>String.prototype.toUpperCase\<close> follows the case tables of Unicode, which are not
  part of the program: \<open>handleCors\<close> takes the function as its first argument, and what
  is proved about it holds for every such function. \<open>toUpperCase_ascii\<close>, which maps the
  letters \<open>a\<close> to \<open>z\<close> and agrees with it on ASCII strings, stands for it in examples.
\<close>

definition upper_char :: "char \<Rightarrow> char" where
  "upper_char c =
     (case map_of (zip ''abcdefghijklmnopqrstuvwxyz'' ''ABCDEFGHIJKLMNOPQRSTUVWXYZ'') c of
        Some u \<Rightarrow> u
      | None \<Rightarrow> c)"

definition toUpperCase_ascii :: "string \<Rightarrow> string" where
  "toUpperCase_ascii s = map upper_char s"

text \<open>
  A number is given by what the program observes of it: \<open>String(n)\<close>, for the value of
  \<open>Access-Control-Max-Age\<close>, and \<open>n | 0\<close>, the 32-bit integer that \<open>writeHead\<close> makes of
  a status code. Integers, fractions, \<open>NaN\<close> and the infinities all have the two.
  \<open>int32_number i\<close> is the number that is the 32-bit integer \<open>i\<close>, written in decimal
  digits, and \<open>number_204\<close> is the literal \<open>204\<close>.
\<close>

record number =
  ToInt32 :: int
  String :: string

fun digits :: "nat \<Rightarrow> string" where
  "digits n =
     (if n < 10 then [''0123456789'' ! n]
      else digits (n div 10) @ [''0123456789'' ! (n mod 10)])"

definition int32_number :: "int \<Rightarrow> number" where
  "int32_number i =
     \<lparr>ToInt32 = i, String = (if i < 0 then CHR ''-'' # digits (nat (- i)) else digits (nat i))\<rparr>"

definition number_204 :: number where
  "number_204 = \<lparr>ToInt32 = 204, String = ''204''\<rparr>"

text \<open>A thrown value, and the state of a promise: fulfilled, rejected, or never settled.\<close>

datatype error = Error string | TypeError string | RangeError string

datatype 'a promise = Resolved 'a | Rejected error | Pending

subsection \<open>Regular expression objects\<close>

text \<open>
  A \<open>RegExp\<close> is an object with state. \<open>exec_from s i\<close> is the compiled pattern: the end
  index of the match it finds in \<open>s\<close> when the search starts at index \<open>i\<close>, if there is
  one. With the \<open>g\<close> or the \<open>y\<close> flag, \<open>test\<close> starts at \<open>lastIndex\<close>, stores the end of
  the match there and resets it to \<open>0\<close> on failure; without them it always starts at \<open>0\<close>
  and leaves the object alone. \<open>RegExp_test\<close> returns the answer and the object after the
  call.
\<close>

record RegExp =
  exec_from :: "string \<Rightarrow> nat \<Rightarrow> nat option"
  global :: bool
  sticky :: bool
  lastIndex :: nat

definition RegExp_test :: "RegExp \<Rightarrow> string \<Rightarrow> bool \<times> RegExp" where
  "RegExp_test r s =
     (if global r \<or> sticky r then
        (case exec_from r s (lastIndex r) of
           None \<Rightarrow> (False, r\<lparr>lastIndex := 0\<rparr>)
         | Some e \<Rightarrow> (True, r\<lparr>lastIndex := e\<rparr>))
      else (exec_from r s 0 \<noteq> None, r))"

section \<open>The request, the response and the console\<close>

text \<open>
  Of \<open>IncomingMessage\<close> the middleware reads \<open>method\<close> (the field \<open>method_field\<close>
  here) and \<open>headers\<close>, where a header that the request does not carry is \<open>undefined\<close>
  and one that it carries with an empty value is the empty string.
\<close>

record IncomingMessage =
  method_field :: "string option"
  headers :: "string \<rightharpoonup> string"

text \<open>
  Of \<open>ServerResponse\<close> the middleware calls \<open>setHeader\<close> and \<open>end\<close> and assigns
  \<open>statusCode\<close>. A response is under construction until its head is sent, and then
  open until \<open>end\<close> is called; \<open>headersSent\<close> is true from the second stage on. The headers
  are kept under their lower-cased names, as Node keeps them. \<open>body\<close> is what has been
  written to the response. \<open>writeHead_check\<close> stands for the checks that \<open>writeHead\<close>
  makes on a response after it has accepted the status code, given as the integer: it
  throws \<open>ERR_INVALID_CHAR\<close> for a reason phrase with an invalid character and
  \<open>ERR_HTTP_TRAILER_INVALID\<close> for a \<open>Trailer\<close> header on a head that cannot announce
  trailers. They depend on what the host has done to the response and on nothing that
  the middleware sets, so the response brings their outcome with it.
\<close>

datatype stage = Building | HeadSent | Ended

record ServerResponse =
  res_headers :: "string \<rightharpoonup> string"
  statusCode :: number
  body :: string
  stage :: stage
  writeHead_check :: "int \<Rightarrow> error option"


text \<open>
  The checks of \<open>setHeader\<close>. A header name is a non-empty HTTP token. A header value must
  not contain a character outside the tab, \<open>0x20\<close> to \<open>0x7e\<close> and \<open>0x80\<close> to \<open>0xff\<close>; in
  UTF-8 these are the control bytes but the tab, the byte \<open>0x7f\<close>, and the bytes from
  \<open>0xc4\<close> on, with which a character above \<open>0xff\<close> starts.
\<close>

definition token_char :: "char \<Rightarrow> bool" where
  "token_char c =
     (let n = (of_char c :: nat) in
      (65 \<le> n \<and> n \<le> 90) \<or> (94 \<le> n \<and> n \<le> 122) \<or> (48 \<le> n \<and> n \<le> 57)
      \<or> n = 33 \<or> (35 \<le> n \<and> n \<le> 39) \<or> n = 42 \<or> n = 43 \<or> n = 45 \<or> n = 46
      \<or> n = 124 \<or> n = 126)"

definition http_token :: "string \<Rightarrow> bool" where
  "http_token name = (name \<noteq> [] \<and> list_all token_char name)"

definition invalid_header_char :: "char \<Rightarrow> bool" where
  "invalid_header_char c =
     (let n = (of_char c :: nat) in (n < 32 \<and> n \<noteq> 9) \<or> n = 127 \<or> 196 \<le> n)"

definition header_value_ok :: "string \<Rightarrow> bool" where
  "header_value_ok v = (\<not> list_ex invalid_header_char v)"

text \<open>The lower-cased form of a header name; on a token it is that of JavaScript.\<close>

definition lower_char :: "char \<Rightarrow> char" where
  "lower_char c =
     (case map_of (zip ''ABCDEFGHIJKLMNOPQRSTUVWXYZ'' ''abcdefghijklmnopqrstuvwxyz'') c of
        Some l \<Rightarrow> l
      | None \<Rightarrow> c)"

definition lower_name :: "string \<Rightarrow> string" where
  "lower_name name = map lower_char name"

text \<open>
  \<open>res.setHeader(name, value)\<close> throws once the head has been sent, on a name that is no
  token and on a value with an invalid character; otherwise it stores the value.
  \<open>res.getHeader(name)\<close> reads it.
\<close>

definition setHeader :: "ServerResponse \<Rightarrow> string \<Rightarrow> string \<Rightarrow> error + ServerResponse" where
  "setHeader res name v =
     (if stage res \<noteq> Building then Inl (Error ''ERR_HTTP_HEADERS_SENT'')
      else if \<not> http_token name then Inl (TypeError ''ERR_INVALID_HTTP_TOKEN'')
      else if \<not> header_value_ok v then Inl (TypeError ''ERR_INVALID_CHAR'')
      else Inr (res\<lparr>res_headers := (res_headers res)(lower_name name \<mapsto> v)\<rparr>))"

definition getHeader :: "ServerResponse \<Rightarrow> string \<Rightarrow> string option" where
  "getHeader res name = res_headers res (lower_name name)"

text \<open>
  \<open>res.end()\<close> without arguments, with the response it leaves and what it throws, if
  anything. On a response that was ended before it does nothing. When the head has not
  been sent it sends it as \<open>writeHead(statusCode)\<close> does: this throws when
  \<open>statusCode | 0\<close> is not between \<open>100\<close> and \<open>999\<close>, then assigns that integer to
  \<open>statusCode\<close>, and throws when one of its later checks fails. \<open>end\<close> writes no body.
\<close>

definition end_response :: "ServerResponse \<Rightarrow> ServerResponse \<times> error option" where
  "end_response res =
     (case stage res of
        Ended \<Rightarrow> (res, None)
      | HeadSent \<Rightarrow> (res\<lparr>stage := Ended\<rparr>, None)
      | Building \<Rightarrow>
          (let code = ToInt32 (statusCode res) in
           if code < 100 \<or> 999 < code
           then (res, Some (RangeError ''ERR_HTTP_INVALID_STATUS_CODE''))
           else
             (let res' = res\<lparr>statusCode := int32_number code\<rparr> in
              case writeHead_check res code of
                None \<Rightarrow> (res'\<lparr>stage := Ended\<rparr>, None)
              | Some e \<Rightarrow> (res', Some e))))"

text \<open>
  A sequence of \<open>setHeader\<close> calls, in order: the first call that throws ends it, and the
  response stays as the calls before it left it.
\<close>

fun setHeader_all ::
  "(string \<times> string) list \<Rightarrow> ServerResponse \<Rightarrow> ServerResponse \<times> error option" where
  "setHeader_all [] res = (res, None)"
| "setHeader_all ((name, v) # calls) res =
     (case setHeader res name v of
        Inl e \<Rightarrow> (res, Some e)
      | Inr res' \<Rightarrow> setHeader_all calls res')"

datatype console_line = Warn string | Info string

section \<open>The origin policy and the options\<close>

text \<open>
  \<open>CrossCorsOrigin\<close> is a string, a \<open>RegExp\<close>, an array of strings and \<open>RegExp\<close>s, or a
  function of the request origin and the request. The function is host code: it returns
  a boolean, throws, or returns a promise. The \<open>RegExp\<close>s of an array are objects of
  their own: an array that lists one \<open>RegExp\<close> object twice is not represented.
\<close>

datatype predicate_result = Returns bool | Throws error | ReturnsPromise "bool promise"

datatype origin_elem = Str string | Re RegExp

datatype CrossCorsOrigin =
    OriginString string
  | OriginRegExp RegExp
  | OriginArray "origin_elem list"
  | OriginFunction "string option \<Rightarrow> IncomingMessage \<Rightarrow> predicate_result"

record CrossCorsOptions =
  origin :: "CrossCorsOrigin option"
  methods :: "string list option"
  allowedHeaders :: "string list option"
  exposedHeaders :: "string list option"
  credentials :: "bool option"
  maxAge :: "number option"
  preflightContinue :: "bool option"
  optionsSuccessStatus :: "number option"
  log :: "bool option"

section \<open>matchOrigin\<close>

text \<open>
  \<open>!ruleOrigin\<close> holds for \<open>undefined\<close> and for the empty string; objects, arrays (also
  the empty one) and functions are truthy.
\<close>

definition falsy_rule :: "CrossCorsOrigin option \<Rightarrow> bool" where
  "falsy_rule ruleOrigin =
     (case ruleOrigin of None \<Rightarrow> True | Some (OriginString s) \<Rightarrow> s = [] | Some _ \<Rightarrow> False)"

text \<open>
  \<open>ruleOrigin.some(...)\<close>: the elements are tried from the left and the walk stops at the
  first one that matches; a \<open>RegExp\<close> that was tried is returned in its new state.
\<close>

fun some_elem :: "origin_elem list \<Rightarrow> string \<Rightarrow> bool \<times> origin_elem list" where
  "some_elem [] reqOrigin = (False, [])"
| "some_elem (Str o' # os) reqOrigin =
     (if o' = reqOrigin then (True, Str o' # os)
      else (let (b, os') = some_elem os reqOrigin in (b, Str o' # os')))"
| "some_elem (Re r # os) reqOrigin =
     (let (t, r') = RegExp_test r reqOrigin in
      if t then (True, Re r' # os)
      else (let (b, os') = some_elem os reqOrigin in (b, Re r' # os')))"

text \<open>
  The result of \<open>matchOrigin\<close> is \<open>Inl e\<close> when the call itself throws \<open>e\<close>, and
  otherwise \<open>Inr p\<close> for the promise it returns; with it comes the policy after the call.
\<close>

definition matchOrigin ::
  "CrossCorsOrigin option \<Rightarrow> string option \<Rightarrow> IncomingMessage
     \<Rightarrow> (error + bool promise) \<times> CrossCorsOrigin option" where
  "matchOrigin ruleOrigin reqOrigin req =
     (if falsy_rule ruleOrigin then (Inr (Resolved True), ruleOrigin)
      else if \<not> truthy reqOrigin then (Inr (Resolved False), ruleOrigin)
      else
        (case (ruleOrigin, reqOrigin) of
           (Some (OriginString s), Some ro) \<Rightarrow>
             (Inr (Resolved (s = ''*'' \<or> s = ro)), ruleOrigin)
         | (Some (OriginRegExp r), Some ro) \<Rightarrow>
             (let (t, r') = RegExp_test r ro in (Inr (Resolved t), Some (OriginRegExp r')))
         | (Some (OriginArray os), Some ro) \<Rightarrow>
             (let (b, os') = some_elem os ro in (Inr (Resolved b), Some (OriginArray os')))
         | (Some (OriginFunction f), Some ro) \<Rightarrow>
             (case f reqOrigin req of
                Throws e \<Rightarrow> (Inl e, ruleOrigin)
              | Returns b \<Rightarrow> (Inr (Resolved b), ruleOrigin)
              | ReturnsPromise p \<Rightarrow> (Inr p, ruleOrigin))
         | _ \<Rightarrow> (Inr (Resolved False), ruleOrigin)))"

section \<open>crosscors and handleCors\<close>

text \<open>
  \<open>crosscors(options)\<close> destructures the options with their defaults and returns
  \<open>handleCors\<close>, a closure over the nine bindings. The closure is a record of these
  bindings; \<open>handleCors\<close> takes it as an argument.
\<close>

record closure =
  cl_origin :: CrossCorsOrigin
  cl_methods :: "string list"
  cl_allowedHeaders :: "string list option"
  cl_exposedHeaders :: "string list option"
  cl_credentials :: bool
  cl_maxAge :: "number option"
  cl_preflightContinue :: bool
  cl_optionsSuccessStatus :: number
  cl_log :: bool

definition crosscors :: "CrossCorsOptions \<Rightarrow> closure" where
  "crosscors options =
     \<lparr> cl_origin = (case origin options of None \<Rightarrow> OriginString ''*'' | Some v \<Rightarrow> v),
       cl_methods = (case methods options of
                       None \<Rightarrow> [''GET'', ''HEAD'', ''PUT'', ''PATCH'', ''POST'', ''DELETE'']
                     | Some v \<Rightarrow> v),
       cl_allowedHeaders = allowedHeaders options,
       cl_exposedHeaders = exposedHeaders options,
       cl_credentials = (case credentials options of None \<Rightarrow> False | Some v \<Rightarrow> v),
       cl_maxAge = maxAge options,
       cl_preflightContinue = (case preflightContinue options of None \<Rightarrow> False | Some v \<Rightarrow> v),
       cl_optionsSuccessStatus =
         (case optionsSuccessStatus options of None \<Rightarrow> number_204 | Some v \<Rightarrow> v),
       cl_log = (case log options of None \<Rightarrow> False | Some v \<Rightarrow> v) \<rparr>"

text \<open>
  A call of \<open>handleCors\<close> yields the promise it returns, the response and the closure as
  the call leaves them, and the lines it wrote to the console.
\<close>

record outcome =
  result :: "bool promise"
  response :: ServerResponse
  console :: "console_line list"
  closure_after :: closure

text \<open>\<open>origin === '*'\<close>\<close>

definition is_star :: "CrossCorsOrigin \<Rightarrow> bool" where
  "is_star v = (case v of OriginString s \<Rightarrow> s = ''*'' | _ \<Rightarrow> False)"

text \<open>\<open>req.method ? req.method.toUpperCase() : ''\<close>\<close>

definition reqMethod :: "(string \<Rightarrow> string) \<Rightarrow> IncomingMessage \<Rightarrow> string" where
  "reqMethod toUpperCase req =
     (case method_field req of Some m \<Rightarrow> if m \<noteq> [] then toUpperCase m else [] | None \<Rightarrow> [])"

text \<open>
  The calls of \<open>setHeader\<close> that the statements for an allowed request make, each with
  its name and value, statement by statement and in the order of the code.
\<close>

definition allow_origin_calls :: "closure \<Rightarrow> IncomingMessage \<Rightarrow> (string \<times> string) list" where
  "allow_origin_calls c req =
     (case headers req ''origin'' of
        Some reqOrigin \<Rightarrow>
          if reqOrigin \<noteq> [] then
            [(''Access-Control-Allow-Origin'', if is_star (cl_origin c) then ''*'' else reqOrigin),
             (''Vary'', ''Origin'')]
          else []
      | None \<Rightarrow> [])"

definition allow_methods_calls :: "closure \<Rightarrow> (string \<times> string) list" where
  "allow_methods_calls c = [(''Access-Control-Allow-Methods'', join '','' (cl_methods c))]"

definition allow_headers_calls :: "closure \<Rightarrow> IncomingMessage \<Rightarrow> (string \<times> string) list" where
  "allow_headers_calls c req =
     (case cl_allowedHeaders c of
        Some hs \<Rightarrow> [(''Access-Control-Allow-Headers'', join '','' hs)]
      | None \<Rightarrow>
          (case headers req ''access-control-request-headers'' of
             Some v \<Rightarrow> if v \<noteq> [] then [(''Access-Control-Allow-Headers'', v)] else []
           | None \<Rightarrow> []))"

definition expose_headers_calls :: "closure \<Rightarrow> (string \<times> string) list" where
  "expose_headers_calls c =
     (case cl_exposedHeaders c of
        Some hs \<Rightarrow> [(''Access-Control-Expose-Headers'', join '','' hs)]
      | None \<Rightarrow> [])"

definition allow_credentials_calls :: "closure \<Rightarrow> (string \<times> string) list" where
  "allow_credentials_calls c =
     (if cl_credentials c then [(''Access-Control-Allow-Credentials'', ''true'')] else [])"

definition max_age_calls :: "closure \<Rightarrow> (string \<times> string) list" where
  "max_age_calls c =
     (case cl_maxAge c of
        Some n \<Rightarrow> [(''Access-Control-Max-Age'', String n)]
      | None \<Rightarrow> [])"

definition setHeader_calls :: "closure \<Rightarrow> IncomingMessage \<Rightarrow> (string \<times> string) list" where
  "setHeader_calls c req =
     allow_origin_calls c req @ allow_methods_calls c @ allow_headers_calls c req
       @ expose_headers_calls c @ allow_credentials_calls c @ max_age_calls c"

text \<open>
  \<open>console.warn\<close> and \<open>console.info\<close> under \<open>log && reqOrigin\<close>: the line written, if
  any.
\<close>

definition log_line :: "closure \<Rightarrow> string option \<Rightarrow> string \<Rightarrow> string list" where
  "log_line c reqOrigin prefix =
     (case reqOrigin of
        Some ro \<Rightarrow> if cl_log c \<and> ro \<noteq> [] then [prefix @ ro] else []
      | None \<Rightarrow> [])"

text \<open>
  \<open>handleCors\<close> is an \<open>async\<close> function: whatever is thrown in its body, by \<open>matchOrigin\<close>,
  by \<open>setHeader\<close> or by \<open>end\<close>, rejects the promise it returns, and the response stays as
  the statements before left it.
\<close>

definition handleCors ::
  "(string \<Rightarrow> string) \<Rightarrow> closure \<Rightarrow> IncomingMessage \<Rightarrow> ServerResponse \<Rightarrow> outcome" where
  "handleCors toUpperCase c req res =
     (let reqOrigin = headers req ''origin'';
          (matched, rule') = matchOrigin (Some (cl_origin c)) reqOrigin req;
          c' = (case rule' of Some v \<Rightarrow> c\<lparr>cl_origin := v\<rparr> | None \<Rightarrow> c)
      in case matched of
           Inl e \<Rightarrow>
             \<lparr>result = Rejected e, response = res, console = [], closure_after = c'\<rparr>
         | Inr (Rejected e) \<Rightarrow>
             \<lparr>result = Rejected e, response = res, console = [], closure_after = c'\<rparr>
         | Inr Pending \<Rightarrow>
             \<lparr>result = Pending, response = res, console = [], closure_after = c'\<rparr>
         | Inr (Resolved False) \<Rightarrow>
             \<lparr>result = Resolved False, response = res,
              console = map Warn (log_line c reqOrigin ''[crosscors] Blocked: ''),
              closure_after = c'\<rparr>
         | Inr (Resolved True) \<Rightarrow>
             (case setHeader_all (setHeader_calls c req) res of
                (res', Some e) \<Rightarrow>
                  \<lparr>result = Rejected e, response = res', console = [], closure_after = c'\<rparr>
              | (res', None) \<Rightarrow>
                  (let out = map Info (log_line c reqOrigin ''[crosscors] Allowed: '')
                   in if reqMethod toUpperCase req = ''OPTIONS'' then
                        (if cl_preflightContinue c
                         then \<lparr>result = Resolved False, response = res', console = out,
                               closure_after = c'\<rparr>
                         else
                           (case end_response (res'\<lparr>statusCode := cl_optionsSuccessStatus c\<rparr>) of
                              (res'', Some e) \<Rightarrow>
                                \<lparr>result = Rejected e, response = res'', console = out,
                                 closure_after = c'\<rparr>
                            | (res'', None) \<Rightarrow>
                                \<lparr>result = Resolved True, response = res'', console = out,
                                 closure_after = c'\<rparr>))
                      else \<lparr>result = Resolved False, response = res', console = out,
                            closure_after = c'\<rparr>)))"

section \<open>Notions used in the statements\<close>

text \<open>What \<open>await matchOrigin(origin, reqOrigin, req)\<close> in \<open>handleCors\<close> gives.\<close>

definition origin_match :: "closure \<Rightarrow> IncomingMessage \<Rightarrow> error + bool promise" where
  "origin_match c req = fst (matchOrigin (Some (cl_origin c)) (headers req ''origin'') req)"


text \<open>
  The values of a sequence of \<open>setHeader\<close> calls are all valid header values. For the
  calls of \<open>handleCors\<close> this says that the configured methods and headers, joined, and
  the values echoed from the request have no invalid character; \<open>String(maxAge)\<close> never
  has one in JavaScript.
\<close>

definition values_ok :: "(string \<times> string) list \<Rightarrow> bool" where
  "values_ok calls = list_all header_value_ok (map snd calls)"

text \<open>
  \<open>writeHead\<close> accepts a number as the status code of a response: as a 32-bit integer it
  is between \<open>100\<close> and \<open>999\<close>, and the later checks pass.
\<close>

definition status_ok :: "number \<Rightarrow> bool" where
  "status_ok n = (100 \<le> ToInt32 n \<and> ToInt32 n \<le> 999)"

definition head_ok :: "ServerResponse \<Rightarrow> number \<Rightarrow> bool" where
  "head_ok res n = (status_ok n \<and> writeHead_check res (ToInt32 n) = None)"

text \<open>
  The headers of an allowed request as section 4.2 of the specification lists them, read
  from the response \<open>res'\<close> that \<open>handleCors\<close> leaves when it was called on \<open>res\<close>: every
  header is either set to the value given there or as \<open>res\<close> had it.
\<close>

definition cors_headers_set ::
  "closure \<Rightarrow> IncomingMessage \<Rightarrow> ServerResponse \<Rightarrow> ServerResponse \<Rightarrow> bool" where
  "cors_headers_set c req res res' =
     (getHeader res' ''Access-Control-Allow-Origin'' =
        (case headers req ''origin'' of
           Some ro \<Rightarrow>
             if ro \<noteq> [] then Some (if is_star (cl_origin c) then ''*'' else ro)
             else getHeader res ''Access-Control-Allow-Origin''
         | None \<Rightarrow> getHeader res ''Access-Control-Allow-Origin'')
    \<and> getHeader res' ''Vary'' =
        (case headers req ''origin'' of
           Some ro \<Rightarrow> if ro \<noteq> [] then Some ''Origin'' else getHeader res ''Vary''
         | None \<Rightarrow> getHeader res ''Vary'')
    \<and> getHeader res' ''Access-Control-Allow-Methods'' = Some (join '','' (cl_methods c))
    \<and> getHeader res' ''Access-Control-Allow-Headers'' =
        (case cl_allowedHeaders c of
           Some hs \<Rightarrow> Some (join '','' hs)
         | None \<Rightarrow>
             (case headers req ''access-control-request-headers'' of
                Some v \<Rightarrow>
                  if v \<noteq> [] then Some v else getHeader res ''Access-Control-Allow-Headers''
              | None \<Rightarrow> getHeader res ''Access-Control-Allow-Headers''))
    \<and> getHeader res' ''Access-Control-Expose-Headers'' =
        (case cl_exposedHeaders c of
           Some hs \<Rightarrow> Some (join '','' hs)
         | None \<Rightarrow> getHeader res ''Access-Control-Expose-Headers'')
    \<and> getHeader res' ''Access-Control-Allow-Credentials'' =
        (if cl_credentials c then Some ''true''
         else getHeader res ''Access-Control-Allow-Credentials'')
    \<and> getHeader res' ''Access-Control-Max-Age'' =
        (case cl_maxAge c of
           Some n \<Rightarrow> Some (String n)
         | None \<Rightarrow> getHeader res ''Access-Control-Max-Age''))"

text \<open>What a sequence of \<open>setHeader\<close> calls stores when none of them throws.\<close>

fun store_all :: "(string \<times> string) list \<Rightarrow> ServerResponse \<Rightarrow> ServerResponse" where
  "store_all [] res = res"
| "store_all ((name, v) # calls) res =
     store_all calls (res\<lparr>res_headers := (res_headers res)(lower_name name \<mapsto> v)\<rparr>)"

text \<open>
  A policy without state: a string, or \<open>RegExp\<close>s that carry neither the \<open>g\<close> nor the
  \<open>y\<close> flag, alone or in an array. A function is not such a policy.
\<close>

definition flagless :: "RegExp \<Rightarrow> bool" where
  "flagless r = (\<not> global r \<and> \<not> sticky r)"

fun flagless_elem :: "origin_elem \<Rightarrow> bool" where
  "flagless_elem (Str s) = True"
| "flagless_elem (Re r) = flagless r"

fun static_policy :: "CrossCorsOrigin \<Rightarrow> bool" where
  "static_policy (OriginString s) = True"
| "static_policy (OriginRegExp r) = flagless r"
| "static_policy (OriginArray os) = list_all flagless_elem os"
| "static_policy (OriginFunction f) = False"

section \<open>Example requests, responses and options\<close>

definition number_200 :: number where
  "number_200 = \<lparr>ToInt32 = 200, String = ''200''\<rparr>"



definition number_3600 :: number where
  "number_3600 = \<lparr>ToInt32 = 3600, String = ''3600''\<rparr>"

definition fresh_response :: ServerResponse where
  "fresh_response =
     \<lparr>res_headers = Map.empty, statusCode = number_200, body = [], stage = Building,
      writeHead_check = Map.empty\<rparr>"

text \<open>A response whose head has gone out, as after \<open>writeHead\<close>.\<close>

definition sent_response :: ServerResponse where
  "sent_response = fresh_response\<lparr>stage := HeadSent\<rparr>"

definition request :: "string option \<Rightarrow> (string \<times> string) list \<Rightarrow> IncomingMessage" where
  "request m hs = \<lparr>method_field = m, headers = map_of hs\<rparr>"

definition get_request :: IncomingMessage where
  "get_request = request (Some ''GET'') [(''origin'', ''https://a.test'')]"

definition preflight_request :: IncomingMessage where
  "preflight_request =
     request (Some ''options'')
       [(''origin'', ''https://a.test''), (''access-control-request-headers'', ''X-Foo,X-Bar'')]"

definition no_method_request :: IncomingMessage where
  "no_method_request = request None [(''origin'', ''https://a.test'')]"

definition no_origin_request :: IncomingMessage where
  "no_origin_request = request (Some ''GET'') []"

definition empty_origin_request :: IncomingMessage where
  "empty_origin_request = request (Some ''GET'') [(''origin'', [])]"

definition empty_request_headers_request :: IncomingMessage where
  "empty_request_headers_request =
     request (Some ''OPTIONS'')
       [(''origin'', ''https://a.test''), (''access-control-request-headers'', [])]"

definition default_options :: CrossCorsOptions where
  "default_options =
     \<lparr>origin = None, methods = None, allowedHeaders = None, exposedHeaders = None,
      credentials = None, maxAge = None, preflightContinue = None,
      optionsSuccessStatus = None, log = None\<rparr>"

definition options_with_origin :: "CrossCorsOrigin \<Rightarrow> CrossCorsOptions" where
  "options_with_origin v = default_options\<lparr>origin := Some v\<rparr>"

text \<open>Options whose \<open>methods\<close> hold a line feed, and options with the status code \<open>1000\<close>.\<close>

definition bad_methods_options :: CrossCorsOptions where
  "bad_methods_options =
     default_options\<lparr>methods := Some [[CHR ''G'', CHR ''E'', CHR 0x0A, CHR ''T'']]\<rparr>"


text \<open>A request whose origin holds a line feed, as a hand-made request object can.\<close>

definition odd_origin :: string where
  "odd_origin = ''https://a.test'' @ [CHR 0x0A]"

definition odd_origin_request :: IncomingMessage where
  "odd_origin_request = request (Some ''GET'') [(''origin'', odd_origin)]"

text \<open>Options that set every header.\<close>

definition full_options :: CrossCorsOptions where
  "full_options =
     \<lparr>origin = Some (OriginString ''https://a.test''), methods = Some [''GET'', ''POST''],
      allowedHeaders = Some [''Content-Type'', ''X-Token''], exposedHeaders = Some [''X-Total''],
      credentials = Some True, maxAge = Some number_3600, preflightContinue = Some True,
      optionsSuccessStatus = None, log = Some True\<rparr>"

text \<open>A predicate that throws, and one whose promise rejects.\<close>

definition throwing_predicate :: "string option \<Rightarrow> IncomingMessage \<Rightarrow> predicate_result" where
  "throwing_predicate reqOrigin req = Throws (Error ''lookup failed'')"

definition rejecting_predicate :: "string option \<Rightarrow> IncomingMessage \<Rightarrow> predicate_result" where
  "rejecting_predicate reqOrigin req = ReturnsPromise (Rejected (Error ''lookup failed''))"

text \<open>
  The compiled pattern \<open>^lit$\<close> for a literal \<open>lit\<close>: it matches the whole string, from
  index \<open>0\<close> only. \<open>/^https:\/\/a\.test$/\<close> is built from it, without flags and with the
  \<open>g\<close> flag.
\<close>

definition whole_string :: "string \<Rightarrow> string \<Rightarrow> nat \<Rightarrow> nat option" where
  "whole_string lit s i = (if i = 0 \<and> s = lit then Some (length s) else None)"

definition a_test_pattern :: RegExp where
  "a_test_pattern =
     \<lparr>exec_from = whole_string ''https://a.test'', global = False, sticky = False, lastIndex = 0\<rparr>"

definition a_test_pattern_g :: RegExp where
  "a_test_pattern_g = a_test_pattern\<lparr>global := True\<rparr>"

section \<open>Lemmas about the model\<close>

subsection \<open>The header names of the code\<close>

lemma names_token:
  "http_token ''Access-Control-Allow-Origin''"
  "http_token ''Vary''"
  "http_token ''Access-Control-Allow-Methods''"
  "http_token ''Access-Control-Allow-Headers''"
  "http_token ''Access-Control-Expose-Headers''"
  "http_token ''Access-Control-Allow-Credentials''"
  "http_token ''Access-Control-Max-Age''"
  by (simp_all add: http_token_def token_char_def)

lemma names_lower:
  "lower_name ''Access-Control-Allow-Origin'' = ''access-control-allow-origin''"
  "lower_name ''Vary'' = ''vary''"
  "lower_name ''Access-Control-Allow-Methods'' = ''access-control-allow-methods''"
  "lower_name ''Access-Control-Allow-Headers'' = ''access-control-allow-headers''"
  "lower_name ''Access-Control-Expose-Headers'' = ''access-control-expose-headers''"
  "lower_name ''Access-Control-Allow-Credentials'' = ''access-control-allow-credentials''"
  "lower_name ''Access-Control-Max-Age'' = ''access-control-max-age''"
  by (simp_all add: lower_name_def lower_char_def)

lemma fixed_values_ok:
  "header_value_ok ''*''" "header_value_ok ''Origin''" "header_value_ok ''true''"
  by (simp_all add: header_value_ok_def invalid_header_char_def)

subsection \<open>setHeader and end\<close>

lemma setHeader_ok:
  "stage res = Building \<Longrightarrow> http_token name \<Longrightarrow> header_value_ok v \<Longrightarrow>
     setHeader res name v = Inr (res\<lparr>res_headers := (res_headers res)(lower_name name \<mapsto> v)\<rparr>)"
  by (simp add: setHeader_def)

lemma setHeader_Inr:
  "setHeader res name v = Inr res' \<Longrightarrow>
     res' = res\<lparr>res_headers := (res_headers res)(lower_name name \<mapsto> v)\<rparr>"
  by (auto simp: setHeader_def split: if_splits)

lemma end_response_frame:
  "res_headers (fst (end_response res)) = res_headers res"
  "body (fst (end_response res)) = body res"
  by (simp_all add: end_response_def Let_def split: stage.split option.split)

lemma end_response_ok:
  assumes "stage res = Building" and "head_ok res (statusCode res)"
  shows "end_response res
           = (res\<lparr>statusCode := int32_number (ToInt32 (statusCode res)), stage := Ended\<rparr>, None)"
  using assms
  by (auto simp: end_response_def status_ok_def head_ok_def Let_def)

subsection \<open>Sequences of setHeader calls\<close>

lemma store_all_append: "store_all (xs @ ys) res = store_all ys (store_all xs res)"
  by (induction xs res rule: store_all.induct) simp_all

lemma store_all_fields:
  "statusCode (store_all calls res) = statusCode res"
  "writeHead_check (store_all calls res) = writeHead_check res"
  "body (store_all calls res) = body res"
  "stage (store_all calls res) = stage res"
  by (induction calls res rule: store_all.induct) simp_all

lemma setHeader_all_fields:
  "statusCode (fst (setHeader_all calls res)) = statusCode res"
  "writeHead_check (fst (setHeader_all calls res)) = writeHead_check res"
  "body (fst (setHeader_all calls res)) = body res"
  "stage (fst (setHeader_all calls res)) = stage res"
  by (induction calls res rule: setHeader_all.induct)
    (auto split: sum.splits dest!: setHeader_Inr)

lemma setHeader_all_append:
  "setHeader_all (xs @ ys) res =
     (case setHeader_all xs res of
        (res', None) \<Rightarrow> setHeader_all ys res'
      | (res', Some e) \<Rightarrow> (res', Some e))"
  by (induction xs res rule: setHeader_all.induct) (simp_all split: sum.splits)

lemma setHeader_all_ok:
  "stage res = Building \<Longrightarrow> list_all http_token (map fst calls) \<Longrightarrow> values_ok calls \<Longrightarrow>
     setHeader_all calls res = (store_all calls res, None)"
  by (induction calls res rule: setHeader_all.induct)
    (simp_all add: values_ok_def setHeader_ok)

lemma setHeader_all_other_name:
  "k \<notin> set (map (lower_name \<circ> fst) calls) \<Longrightarrow>
     res_headers (fst (setHeader_all calls res)) k = res_headers res k"
  by (induction calls res rule: setHeader_all.induct)
    (auto split: sum.splits dest!: setHeader_Inr)



subsection \<open>The calls of handleCors\<close>

lemmas calls_defs = allow_origin_calls_def allow_methods_calls_def allow_headers_calls_def
  expose_headers_calls_def allow_credentials_calls_def max_age_calls_def

lemma calls_token: "list_all http_token (map fst (setHeader_calls c req))"
  by (simp add: setHeader_calls_def calls_defs names_token split: option.split)

lemma later_names:
  "set (map (lower_name \<circ> fst)
      (allow_methods_calls c @ allow_headers_calls c req @ expose_headers_calls c
        @ allow_credentials_calls c @ max_age_calls c))
   \<subseteq> {''access-control-allow-methods'', ''access-control-allow-headers'',
       ''access-control-expose-headers'', ''access-control-allow-credentials'',
       ''access-control-max-age''}"
  by (auto simp: calls_defs names_lower split: option.splits if_splits)

lemma last_names:
  "set (map (lower_name \<circ> fst)
      (expose_headers_calls c @ allow_credentials_calls c @ max_age_calls c))
   \<subseteq> {''access-control-expose-headers'', ''access-control-allow-credentials'',
       ''access-control-max-age''}"
  by (auto simp: calls_defs names_lower split: option.splits if_splits)

lemma allow_origin_stored:
  "res_headers (store_all (allow_origin_calls c req) res) k =
     (case headers req ''origin'' of
        Some ro \<Rightarrow>
          if ro \<noteq> [] then
            (if k = ''vary'' then Some ''Origin''
             else if k = ''access-control-allow-origin''
               then Some (if is_star (cl_origin c) then ''*'' else ro)
               else res_headers res k)
          else res_headers res k
      | None \<Rightarrow> res_headers res k)"
  by (simp add: allow_origin_calls_def names_lower split: option.split)

lemma allow_methods_stored:
  "res_headers (store_all (allow_methods_calls c) res) k =
     (if k = ''access-control-allow-methods'' then Some (join '','' (cl_methods c))
      else res_headers res k)"
  by (simp add: allow_methods_calls_def names_lower)

lemma allow_headers_stored:
  "res_headers (store_all (allow_headers_calls c req) res) k =
     (if k = ''access-control-allow-headers'' then
        (case cl_allowedHeaders c of
           Some hs \<Rightarrow> Some (join '','' hs)
         | None \<Rightarrow>
             (case headers req ''access-control-request-headers'' of
                Some v \<Rightarrow> if v \<noteq> [] then Some v else res_headers res k
              | None \<Rightarrow> res_headers res k))
      else res_headers res k)"
  by (simp add: allow_headers_calls_def names_lower split: option.split)

lemma expose_headers_stored:
  "res_headers (store_all (expose_headers_calls c) res) k =
     (if k = ''access-control-expose-headers'' then
        (case cl_exposedHeaders c of
           Some hs \<Rightarrow> Some (join '','' hs)
         | None \<Rightarrow> res_headers res k)
      else res_headers res k)"
  by (simp add: expose_headers_calls_def names_lower split: option.split)

lemma allow_credentials_stored:
  "res_headers (store_all (allow_credentials_calls c) res) k =
     (if k = ''access-control-allow-credentials'' \<and> cl_credentials c then Some ''true''
      else res_headers res k)"
  by (simp add: allow_credentials_calls_def names_lower)

lemma max_age_stored:
  "res_headers (store_all (max_age_calls c) res) k =
     (if k = ''access-control-max-age'' then
        (case cl_maxAge c of Some n \<Rightarrow> Some (String n) | None \<Rightarrow> res_headers res k)
      else res_headers res k)"
  by (simp add: max_age_calls_def names_lower split: option.split)

lemmas stored = allow_origin_stored allow_methods_stored allow_headers_stored
  expose_headers_stored allow_credentials_stored max_age_stored

lemma store_all_cors_headers_set:
  assumes "res_headers res' = res_headers (store_all (setHeader_calls c req) res)"
  shows "cors_headers_set c req res res'"
  by (simp add: cors_headers_set_def getHeader_def names_lower assms setHeader_calls_def
      store_all_append stored split: option.split)

subsection \<open>The ways out of handleCors\<close>

lemma handleCors_denied:
  assumes "origin_match c req = Inr (Resolved False)"
  shows "result (handleCors up c req res) = Resolved False"
    and "response (handleCors up c req res) = res"
  using assms by (auto simp: handleCors_def origin_match_def Let_def split: prod.splits)

lemma handleCors_failed:
  assumes "origin_match c req = Inl e \<or> origin_match c req = Inr (Rejected e)"
  shows "result (handleCors up c req res) = Rejected e"
    and "response (handleCors up c req res) = res"
  using assms by (auto simp: handleCors_def origin_match_def Let_def split: prod.splits)

lemma response_headers_allowed:
  assumes "origin_match c req = Inr (Resolved True)"
  shows "res_headers (response (handleCors up c req res))
           = res_headers (fst (setHeader_all (setHeader_calls c req) res))"
proof -
  have "res_headers (fst (end_response (r\<lparr>statusCode := s\<rparr>))) = res_headers r" for r s
    by (simp add: end_response_frame)
  then have "end_response (r\<lparr>statusCode := s\<rparr>) = (r', eo) \<Longrightarrow> res_headers r' = res_headers r"
    for r s r' eo
    by (metis fst_conv)
  with assms show ?thesis
    by (auto simp: handleCors_def origin_match_def Let_def split: prod.splits option.splits)
qed

lemma handleCors_no_end:
  assumes "origin_match c req = Inr (Resolved True)"
    and "stage res = Building" and "values_ok (setHeader_calls c req)"
    and "reqMethod up req \<noteq> ''OPTIONS'' \<or> cl_preflightContinue c"
  shows "result (handleCors up c req res) = Resolved False"
    and "response (handleCors up c req res) = store_all (setHeader_calls c req) res"
  using assms
  by (auto simp: handleCors_def origin_match_def Let_def setHeader_all_ok calls_token
      split: prod.splits)

lemma handleCors_end:
  assumes "origin_match c req = Inr (Resolved True)"
    and "stage res = Building" and "values_ok (setHeader_calls c req)"
    and "reqMethod up req = ''OPTIONS''" and "\<not> cl_preflightContinue c"
    and "head_ok res (cl_optionsSuccessStatus c)"
  shows "result (handleCors up c req res) = Resolved True"
    and "response (handleCors up c req res)
           = (store_all (setHeader_calls c req) res)
               \<lparr>statusCode := int32_number (ToInt32 (cl_optionsSuccessStatus c)), stage := Ended\<rparr>"
proof -
  let ?r = "(store_all (setHeader_calls c req) res)\<lparr>statusCode := cl_optionsSuccessStatus c\<rparr>"
  from assms(2,6) have e: "end_response ?r
      = (?r\<lparr>statusCode := int32_number (ToInt32 (cl_optionsSuccessStatus c)), stage := Ended\<rparr>,
         None)"
    using end_response_ok [of ?r] by (simp add: store_all_fields head_ok_def)
  from assms(1-5) e show "result (handleCors up c req res) = Resolved True"
    and "response (handleCors up c req res)
           = (store_all (setHeader_calls c req) res)
               \<lparr>statusCode := int32_number (ToInt32 (cl_optionsSuccessStatus c)), stage := Ended\<rparr>"
    by (auto simp: handleCors_def origin_match_def Let_def setHeader_all_ok calls_token
        split: prod.splits)
qed

lemma allow_origin_headers_stay:
  assumes "stage res = Building" and "values_ok (allow_origin_calls c req)"
    and "k = ''access-control-allow-origin'' \<or> k = ''vary''"
  shows "res_headers (fst (setHeader_all (setHeader_calls c req) res)) k
           = res_headers (store_all (allow_origin_calls c req) res) k"
proof -
  let ?rest = "allow_methods_calls c @ allow_headers_calls c req @ expose_headers_calls c
    @ allow_credentials_calls c @ max_age_calls c"
  have tok: "list_all http_token (map fst (allow_origin_calls c req))"
    using calls_token [of c req] by (simp add: setHeader_calls_def)
  have first: "setHeader_all (allow_origin_calls c req) res
                 = (store_all (allow_origin_calls c req) res, None)"
    using assms(1,2) tok by (simp add: setHeader_all_ok)
  have k: "k \<notin> set (map (lower_name \<circ> fst) ?rest)"
    using later_names [of c req] assms(3) by auto
  have "setHeader_all (setHeader_calls c req) res
          = setHeader_all ?rest (store_all (allow_origin_calls c req) res)"
    by (simp add: setHeader_calls_def setHeader_all_append [of "allow_origin_calls c req"] first)
  then show ?thesis
    using setHeader_all_other_name [OF k] by simp
qed

lemma no_origin_headers_stay:
  assumes "headers req ''origin'' = None \<or> headers req ''origin'' = Some []"
    and "k = ''access-control-allow-origin'' \<or> k = ''vary''"
  shows "res_headers (fst (setHeader_all (setHeader_calls c req) res)) k = res_headers res k"
proof -
  let ?rest = "allow_methods_calls c @ allow_headers_calls c req @ expose_headers_calls c
    @ allow_credentials_calls c @ max_age_calls c"
  from assms(1) have "setHeader_calls c req = ?rest"
    by (auto simp: setHeader_calls_def allow_origin_calls_def)
  moreover have "k \<notin> set (map (lower_name \<circ> fst) ?rest)"
    using later_names [of c req] assms(2) by auto
  ultimately show ?thesis
    using setHeader_all_other_name [of k ?rest res] by simp
qed

lemma allow_headers_header_stays:
  assumes "stage res = Building"
    and "values_ok (allow_origin_calls c req @ allow_methods_calls c @ allow_headers_calls c req)"
  shows "res_headers (fst (setHeader_all (setHeader_calls c req) res))
           ''access-control-allow-headers''
         = res_headers (store_all (allow_origin_calls c req @ allow_methods_calls c
             @ allow_headers_calls c req) res) ''access-control-allow-headers''"
proof -
  let ?front = "allow_origin_calls c req @ allow_methods_calls c @ allow_headers_calls c req"
  let ?rest = "expose_headers_calls c @ allow_credentials_calls c @ max_age_calls c"
  have tok: "list_all http_token (map fst ?front)"
    using calls_token [of c req] by (simp add: setHeader_calls_def)
  have first: "setHeader_all ?front res = (store_all ?front res, None)"
    using assms tok by (simp add: setHeader_all_ok)
  have k: "''access-control-allow-headers'' \<notin> set (map (lower_name \<circ> fst) ?rest)"
    using last_names [of c] by auto
  have "setHeader_calls c req = ?front @ ?rest"
    by (simp add: setHeader_calls_def)
  then have "setHeader_all (setHeader_calls c req) res = setHeader_all ?rest (store_all ?front res)"
    by (simp only: setHeader_all_append [of ?front ?rest] first prod.case option.case)
  then show ?thesis
    using setHeader_all_other_name [OF k] by simp
qed


subsection \<open>The answer of the array walk\<close>



subsection \<open>Policies without state\<close>

lemma RegExp_test_flagless: "flagless r \<Longrightarrow> snd (RegExp_test r s) = r"
  by (simp add: RegExp_test_def flagless_def)

lemma some_elem_flagless: "list_all flagless_elem os \<Longrightarrow> snd (some_elem os ro) = os"
proof (induction os)
  case Nil
  show ?case by simp
next
  case (Cons e os)
  show ?case
  proof (cases e)
    case (Str s)
    with Cons show ?thesis by (simp add: split_beta)
  next
    case (Re r)
    with Cons.prems have "snd (RegExp_test r ro) = r"
      by (simp add: RegExp_test_flagless)
    with Re Cons show ?thesis by (simp add: split_beta)
  qed
qed

lemma matchOrigin_static:
  assumes "static_policy rule"
  shows "snd (matchOrigin (Some rule) reqOrigin req) = Some rule"
proof (cases rule)
  case (OriginString s)
  then show ?thesis by (simp add: matchOrigin_def truthy_def split: option.splits)
next
  case (OriginRegExp r)
  with assms have "snd (RegExp_test r ro) = r" for ro
    by (simp add: RegExp_test_flagless)
  with OriginRegExp show ?thesis
    by (simp add: matchOrigin_def falsy_rule_def truthy_def split_beta split: option.splits)
next
  case (OriginArray os)
  with assms have "snd (some_elem os ro) = os" for ro
    by (simp add: some_elem_flagless)
  with OriginArray show ?thesis
    by (simp add: matchOrigin_def falsy_rule_def truthy_def split_beta split: option.splits)
next
  case (OriginFunction f)
  with assms show ?thesis by simp
qed

lemma closure_after_handleCors:
  "closure_after (handleCors up c req res) =
     (case snd (matchOrigin (Some (cl_origin c)) (headers req ''origin'') req) of
        Some v \<Rightarrow> c\<lparr>cl_origin := v\<rparr>
      | None \<Rightarrow> c)"
  by (simp add: handleCors_def Let_def split_beta
      split: sum.split promise.split bool.split option.split)

lemma static_closure_after:
  assumes "static_policy (cl_origin c)"
  shows "closure_after (handleCors up c req res) = c"
  by (simp add: closure_after_handleCors matchOrigin_static [OF assms])

lemmas eval_defs =
  handleCors_def origin_match_def matchOrigin_def falsy_rule_def truthy_def crosscors_def
  setHeader_calls_def calls_defs setHeader_def getHeader_def http_token_def token_char_def
  header_value_ok_def invalid_header_char_def lower_name_def lower_char_def end_response_def
  log_line_def reqMethod_def toUpperCase_ascii_def upper_char_def is_star_def RegExp_test_def
  number_204_def values_ok_def int32_number_def

section \<open>A failing predicate\<close>

text \<open>
  Claim C1 says that when the origin policy is a function and its call throws, or the
  promise it returns rejects, the decision is a denial: \<open>handleCors\<close> resolves to
  \<open>false\<close>, and the response is left with no headers set. The code has no handler around
  the call: with a predicate that throws, the promise of \<open>handleCors\<close> is rejected.
\<close>

theorem throwing_predicate_counterexample:
  "result (handleCors toUpperCase_ascii
     (crosscors (options_with_origin (OriginFunction throwing_predicate)))
     get_request fresh_response) = Rejected (Error ''lookup failed'')
   \<and> result (handleCors toUpperCase_ascii
     (crosscors (options_with_origin (OriginFunction throwing_predicate)))
     get_request fresh_response) \<noteq> Resolved False"
  by (simp add: eval_defs fresh_response_def request_def get_request_def default_options_def
      options_with_origin_def throwing_predicate_def)


text \<open>
  Claim C1, as amended: when the origin policy is a function, the request carries a
  non-empty origin, and the call of the function throws \<open>e\<close> or returns a promise that
  rejects with \<open>e\<close>, the promise returned by \<open>handleCors\<close> rejects with \<open>e\<close>, and the
  response is left as it was, with no header set.
\<close>

theorem predicate_failure_propagates:
  assumes "cl_origin c = OriginFunction f"
    and "headers req ''origin'' = Some ro" and "ro \<noteq> []"
    and "f (Some ro) req = Throws e \<or> f (Some ro) req = ReturnsPromise (Rejected e)"
  shows "result (handleCors toUpperCase c req res) = Rejected e
       \<and> response (handleCors toUpperCase c req res) = res"
proof -
  from assms have "origin_match c req = Inl e \<or> origin_match c req = Inr (Rejected e)"
    by (auto simp: origin_match_def matchOrigin_def falsy_rule_def truthy_def)
  then show ?thesis
    by (simp add: handleCors_failed)
qed


text \<open>The amended claim at a predicate whose promise rejects.\<close>

theorem predicate_failure_propagates_witness:
  "result (handleCors toUpperCase_ascii
     (crosscors (options_with_origin (OriginFunction rejecting_predicate)))
     get_request fresh_response) = Rejected (Error ''lookup failed'')
   \<and> response (handleCors toUpperCase_ascii
     (crosscors (options_with_origin (OriginFunction rejecting_predicate)))
     get_request fresh_response) = fresh_response"
proof -
  have "cl_origin (crosscors (options_with_origin (OriginFunction rejecting_predicate)))
          = OriginFunction rejecting_predicate"
    and "headers get_request ''origin'' = Some ''https://a.test''"
    and "''https://a.test'' \<noteq> []"
    and "rejecting_predicate (Some ''https://a.test'') get_request = Throws (Error ''lookup failed'')
         \<or> rejecting_predicate (Some ''https://a.test'') get_request
              = ReturnsPromise (Rejected (Error ''lookup failed''))"
    by (simp_all add: crosscors_def request_def get_request_def default_options_def
        options_with_origin_def rejecting_predicate_def)
  then show ?thesis
    by (rule predicate_failure_propagates)
qed


section \<open>An array of origins\<close>







section \<open>A string as the origin policy\<close>

text \<open>
  Claim C4 says that for a string policy, the empty string included, \<open>matchOrigin\<close> is
  true exactly when the string is \<open>"*"\<close> or equals the present request origin, and false
  when the request carries no origin. The empty string is falsy, so the code takes it
  for an absent policy and answers true, with or without a request origin; and a request
  origin that is present but empty is falsy too, so \<open>"*"\<close> does not match it.
\<close>

theorem empty_literal_counterexample:
  "fst (matchOrigin (Some (OriginString [])) None get_request) = Inr (Resolved True)
   \<and> fst (matchOrigin (Some (OriginString [])) (Some ''https://a.test'') get_request)
       = Inr (Resolved True)
   \<and> fst (matchOrigin (Some (OriginString ''*'')) (Some []) get_request) = Inr (Resolved False)"
  by (simp add: matchOrigin_def falsy_rule_def truthy_def)


text \<open>
  Claim C4, as amended: for a non-empty string policy, \<open>matchOrigin\<close> resolves to true
  exactly when the request carries a non-empty origin and the string is \<open>"*"\<close> or equals
  that origin; when the request carries no origin it resolves to false.
\<close>

theorem exact_string_match:
  assumes "s \<noteq> []"
  shows "fst (matchOrigin (Some (OriginString s)) reqOrigin req)
           = Inr (Resolved (case reqOrigin of
                              Some ro \<Rightarrow> ro \<noteq> [] \<and> (s = ''*'' \<or> s = ro)
                            | None \<Rightarrow> False))"
  using assms
  by (simp add: matchOrigin_def falsy_rule_def truthy_def split: option.split)


text \<open>The amended claim at an equal origin, at another origin and at no origin.\<close>

theorem exact_string_match_witness:
  "fst (matchOrigin (Some (OriginString ''https://a.test'')) (Some ''https://a.test'') get_request)
     = Inr (Resolved True)
   \<and> fst (matchOrigin (Some (OriginString ''https://a.test'')) (Some ''https://b.test'') get_request)
     = Inr (Resolved False)
   \<and> fst (matchOrigin (Some (OriginString ''https://a.test'')) None get_request)
     = Inr (Resolved False)"
proof -
  have ne: "''https://a.test'' \<noteq> []" by simp
  from exact_string_match [OF ne, of "Some ''https://a.test''" get_request]
    exact_string_match [OF ne, of "Some ''https://b.test''" get_request]
    exact_string_match [OF ne, of None get_request]
  show ?thesis by simp
qed


section \<open>Denial\<close>

text \<open>
  Claim C3: on denial, that is when \<open>matchOrigin\<close> resolves to false, \<open>handleCors\<close>
  returns false and changes nothing on the response: no header is set, the status code
  is untouched and the response is not ended. This holds for every closure and every
  request that fails origin matching.
\<close>

theorem denial_leaves_response_untouched:
  assumes "origin_match c req = Inr (Resolved False)"
  shows "result (handleCors toUpperCase c req res) = Resolved False
       \<and> response (handleCors toUpperCase c req res) = res"
  using assms by (simp add: handleCors_denied)


text \<open>Claim C3 at the policy \<open>https://b.test\<close> and a request from \<open>https://a.test\<close>.\<close>

theorem denial_leaves_response_untouched_witness:
  "origin_match (crosscors (options_with_origin (OriginString ''https://b.test''))) get_request
     = Inr (Resolved False)
   \<and> result (handleCors toUpperCase_ascii
        (crosscors (options_with_origin (OriginString ''https://b.test'')))
        get_request fresh_response) = Resolved False
   \<and> response (handleCors toUpperCase_ascii
        (crosscors (options_with_origin (OriginString ''https://b.test'')))
        get_request fresh_response) = fresh_response"
proof -
  have denied:
    "origin_match (crosscors (options_with_origin (OriginString ''https://b.test''))) get_request
       = Inr (Resolved False)"
    by (simp add: origin_match_def matchOrigin_def falsy_rule_def truthy_def crosscors_def
        request_def get_request_def default_options_def options_with_origin_def)
  from denial_leaves_response_untouched [OF denied] denied show ?thesis
    by simp
qed


section \<open>The wildcard policy\<close>

lemma wildcard_origin_match:
  assumes "is_star (cl_origin c)" and "headers req ''origin'' = Some ro" and "ro \<noteq> []"
  shows "origin_match c req = Inr (Resolved True)"
  using assms
  by (cases "cl_origin c")
    (simp_all add: is_star_def origin_match_def matchOrigin_def falsy_rule_def truthy_def)


text \<open>
  Claim C5 says that for every configuration whose origin policy is absent or the
  wildcard \<open>"*"\<close>, and every request with a non-empty origin, \<open>handleCors\<close> sets
  \<open>Access-Control-Allow-Origin\<close> and returns, with the request not denied. The code does
  not check what it passes to \<open>setHeader\<close>: with a line feed in \<open>methods\<close> the call for
  \<open>Access-Control-Allow-Methods\<close> throws and the promise of \<open>handleCors\<close> is rejected; and
  on a response whose head has been sent the first \<open>setHeader\<close> throws, so that no
  header is set.
\<close>

theorem wildcard_counterexample:
  "result (handleCors toUpperCase_ascii (crosscors bad_methods_options) get_request fresh_response)
     = Rejected (TypeError ''ERR_INVALID_CHAR'')
   \<and> result (handleCors toUpperCase_ascii (crosscors default_options) get_request sent_response)
     = Rejected (Error ''ERR_HTTP_HEADERS_SENT'')
   \<and> getHeader (response
        (handleCors toUpperCase_ascii (crosscors default_options) get_request sent_response))
        ''Access-Control-Allow-Origin'' = None"
  by (simp add: eval_defs fresh_response_def sent_response_def number_200_def request_def
      get_request_def default_options_def bad_methods_options_def)


text \<open>
  Claim C5, as amended: for every configuration whose origin policy is absent or the
  wildcard \<open>"*"\<close>, and every request with a non-empty origin, origin matching resolves to
  true, so that the request is not denied; on a response under construction
  \<open>handleCors\<close> sets \<open>Access-Control-Allow-Origin\<close> to \<open>"*"\<close>; and when moreover every
  value that it passes to \<open>setHeader\<close> is a valid header value and, for a preflight that
  it ends, \<open>writeHead\<close> accepts the status code on the response, its promise resolves:
  to true for a preflight that it ends and to false otherwise.
\<close>

theorem wildcard_allows_every_origin:
  assumes "origin options = None \<or> origin options = Some (OriginString ''*'')"
    and "headers req ''origin'' = Some ro" and "ro \<noteq> []"
  shows "origin_match (crosscors options) req = Inr (Resolved True)
       \<and> (stage res = Building \<longrightarrow>
            getHeader (response (handleCors toUpperCase (crosscors options) req res))
              ''Access-Control-Allow-Origin'' = Some ''*'')
       \<and> (stage res = Building \<and> values_ok (setHeader_calls (crosscors options) req)
            \<and> (reqMethod toUpperCase req \<noteq> ''OPTIONS'' \<or> cl_preflightContinue (crosscors options)
                \<or> head_ok res (cl_optionsSuccessStatus (crosscors options))) \<longrightarrow>
            result (handleCors toUpperCase (crosscors options) req res)
              = Resolved (reqMethod toUpperCase req = ''OPTIONS''
                          \<and> \<not> cl_preflightContinue (crosscors options)))"
proof -
  let ?c = "crosscors options"
  from assms(1) have star: "is_star (cl_origin ?c)"
    by (auto simp: crosscors_def is_star_def)
  with assms have allowed: "origin_match ?c req = Inr (Resolved True)"
    by (simp add: wildcard_origin_match)
  have ok: "values_ok (allow_origin_calls ?c req)"
    using star assms(2,3) by (simp add: values_ok_def allow_origin_calls_def fixed_values_ok)
  have header: "getHeader (response (handleCors toUpperCase ?c req res))
      ''Access-Control-Allow-Origin'' = Some ''*''" if "stage res = Building"
    using star assms(2,3)
    by (simp add: getHeader_def names_lower response_headers_allowed [OF allowed]
        allow_origin_headers_stay [OF that ok] allow_origin_stored)
  have resolved: "result (handleCors toUpperCase ?c req res)
      = Resolved (reqMethod toUpperCase req = ''OPTIONS'' \<and> \<not> cl_preflightContinue ?c)"
    if "stage res = Building" and "values_ok (setHeader_calls ?c req)"
      and "reqMethod toUpperCase req \<noteq> ''OPTIONS'' \<or> cl_preflightContinue ?c
           \<or> head_ok res (cl_optionsSuccessStatus ?c)"
  proof (cases "reqMethod toUpperCase req \<noteq> ''OPTIONS'' \<or> cl_preflightContinue ?c")
    case True
    with handleCors_no_end(1) [OF allowed that(1,2)] show ?thesis by auto
  next
    case False
    with that(3) handleCors_end(1) [OF allowed that(1,2)] show ?thesis by auto
  qed
  from allowed header resolved show ?thesis by blast
qed


text \<open>The amended claim at the default options and a \<open>GET\<close> request from \<open>https://a.test\<close>.\<close>

theorem wildcard_allows_every_origin_witness:
  "origin_match (crosscors default_options) get_request = Inr (Resolved True)
   \<and> getHeader (response
        (handleCors toUpperCase_ascii (crosscors default_options) get_request fresh_response))
        ''Access-Control-Allow-Origin'' = Some ''*''
   \<and> result (handleCors toUpperCase_ascii (crosscors default_options) get_request fresh_response)
       = Resolved False"
proof -
  have "origin default_options = None \<or> origin default_options = Some (OriginString ''*'')"
    and "headers get_request ''origin'' = Some ''https://a.test''"
    and "''https://a.test'' \<noteq> []"
    by (simp_all add: request_def get_request_def default_options_def)
  from wildcard_allows_every_origin [OF this, of fresh_response toUpperCase_ascii]
  show ?thesis
    by (simp add: eval_defs status_ok_def head_ok_def fresh_response_def number_200_def
        request_def get_request_def default_options_def)
qed


section \<open>The headers of an allowed request\<close>

text \<open>
  Claim C6 says that on allow with a present request origin, \<open>handleCors\<close> sets
  \<open>Access-Control-Allow-Origin\<close>, to \<open>"*"\<close> exactly when the policy is the wildcard and
  to the request origin otherwise, and sets \<open>Vary: Origin\<close>; and that with no request
  origin neither header is set. The code sets the two headers under \<open>if (reqOrigin)\<close>,
  which is false for an \<open>Origin\<close> header that is present with an empty value: such a
  request, allowed under the policy \<open>''\<close>, gets neither header. Nor is a header set on a
  response whose head has been sent, or from an origin that is no valid header value:
  \<open>setHeader\<close> throws.
\<close>

theorem empty_origin_counterexample:
  "headers empty_origin_request ''origin'' = Some []
   \<and> origin_match (crosscors (options_with_origin (OriginString []))) empty_origin_request
       = Inr (Resolved True)
   \<and> getHeader (response (handleCors toUpperCase_ascii
        (crosscors (options_with_origin (OriginString []))) empty_origin_request fresh_response))
        ''Access-Control-Allow-Origin'' = None
   \<and> getHeader (response (handleCors toUpperCase_ascii
        (crosscors (options_with_origin (OriginString []))) empty_origin_request fresh_response))
        ''Vary'' = None
   \<and> origin_match (crosscors default_options) get_request = Inr (Resolved True)
   \<and> getHeader (response
        (handleCors toUpperCase_ascii (crosscors default_options) get_request sent_response))
        ''Access-Control-Allow-Origin'' = None
   \<and> origin_match (crosscors (options_with_origin (OriginString odd_origin))) odd_origin_request
       = Inr (Resolved True)
   \<and> getHeader (response (handleCors toUpperCase_ascii
        (crosscors (options_with_origin (OriginString odd_origin))) odd_origin_request
        fresh_response)) ''Access-Control-Allow-Origin'' = None"
  by (simp add: eval_defs fresh_response_def sent_response_def number_200_def request_def
      get_request_def empty_origin_request_def odd_origin_def odd_origin_request_def
      default_options_def options_with_origin_def)


text \<open>
  Claim C6, as amended: on allow with a present and non-empty request origin, on a
  response under construction, and when the policy is the wildcard or the origin is a
  valid header value (as every value is that Node has parsed from a request),
  \<open>handleCors\<close> sets \<open>Access-Control-Allow-Origin\<close> to \<open>"*"\<close> when the policy is the
  wildcard and to the request origin otherwise, and sets \<open>Vary\<close> to \<open>Origin\<close>; when the
  request carries no origin, or an empty one, it sets neither header: both are as the
  response had them.
\<close>

theorem allow_origin_and_vary:
  assumes "origin_match c req = Inr (Resolved True)"
  shows "(\<forall>ro. headers req ''origin'' = Some ro \<and> ro \<noteq> [] \<and> stage res = Building
            \<and> (is_star (cl_origin c) \<or> header_value_ok ro) \<longrightarrow>
            getHeader (response (handleCors toUpperCase c req res)) ''Access-Control-Allow-Origin''
              = Some (if is_star (cl_origin c) then ''*'' else ro)
          \<and> getHeader (response (handleCors toUpperCase c req res)) ''Vary'' = Some ''Origin'')
       \<and> (headers req ''origin'' = None \<or> headers req ''origin'' = Some [] \<longrightarrow>
            getHeader (response (handleCors toUpperCase c req res)) ''Access-Control-Allow-Origin''
              = getHeader res ''Access-Control-Allow-Origin''
          \<and> getHeader (response (handleCors toUpperCase c req res)) ''Vary''
              = getHeader res ''Vary'')"
proof -
  have set: "getHeader (response (handleCors toUpperCase c req res)) ''Access-Control-Allow-Origin''
        = Some (if is_star (cl_origin c) then ''*'' else ro)
      \<and> getHeader (response (handleCors toUpperCase c req res)) ''Vary'' = Some ''Origin''"
    if "headers req ''origin'' = Some ro" and "ro \<noteq> []" and sent: "stage res = Building"
      and "is_star (cl_origin c) \<or> header_value_ok ro" for ro
  proof -
    from that have ok: "values_ok (allow_origin_calls c req)"
      by (auto simp: values_ok_def allow_origin_calls_def fixed_values_ok)
    from that(1,2) show ?thesis
      by (simp add: getHeader_def names_lower response_headers_allowed [OF assms]
          allow_origin_headers_stay [OF sent ok] allow_origin_stored)
  qed
  have stay: "getHeader (response (handleCors toUpperCase c req res)) ''Access-Control-Allow-Origin''
        = getHeader res ''Access-Control-Allow-Origin''
      \<and> getHeader (response (handleCors toUpperCase c req res)) ''Vary'' = getHeader res ''Vary''"
    if "headers req ''origin'' = None \<or> headers req ''origin'' = Some []"
    by (simp add: getHeader_def names_lower response_headers_allowed [OF assms]
        no_origin_headers_stay [OF that])
  from set stay show ?thesis by blast
qed


text \<open>
  The amended claim under the wildcard, under the policy \<open>https://a.test\<close>, and for a
  request without origin.
\<close>

theorem allow_origin_and_vary_witness:
  "getHeader (response
     (handleCors toUpperCase_ascii (crosscors default_options) get_request fresh_response))
     ''Access-Control-Allow-Origin'' = Some ''*''
   \<and> getHeader (response
     (handleCors toUpperCase_ascii (crosscors default_options) get_request fresh_response))
     ''Vary'' = Some ''Origin''
   \<and> getHeader (response (handleCors toUpperCase_ascii
        (crosscors (options_with_origin (OriginString ''https://a.test''))) get_request
        fresh_response))
     ''Access-Control-Allow-Origin'' = Some ''https://a.test''
   \<and> getHeader (response (handleCors toUpperCase_ascii
        (crosscors (options_with_origin (OriginString []))) no_origin_request fresh_response))
     ''Access-Control-Allow-Origin'' = None
   \<and> getHeader (response (handleCors toUpperCase_ascii
        (crosscors (options_with_origin (OriginString []))) no_origin_request fresh_response))
     ''Vary'' = None"
proof -
  have a: "origin_match (crosscors default_options) get_request = Inr (Resolved True)"
    and b: "origin_match (crosscors (options_with_origin (OriginString ''https://a.test'')))
              get_request = Inr (Resolved True)"
    and c: "origin_match (crosscors (options_with_origin (OriginString []))) no_origin_request
              = Inr (Resolved True)"
    by (simp_all add: origin_match_def matchOrigin_def falsy_rule_def truthy_def crosscors_def
        request_def get_request_def no_origin_request_def default_options_def
        options_with_origin_def)
  from allow_origin_and_vary [OF a, of fresh_response toUpperCase_ascii]
    allow_origin_and_vary [OF b, of fresh_response toUpperCase_ascii]
    allow_origin_and_vary [OF c, of fresh_response toUpperCase_ascii]
  show ?thesis
    by (simp add: is_star_def crosscors_def getHeader_def header_value_ok_def
        invalid_header_char_def fresh_response_def request_def get_request_def
        no_origin_request_def default_options_def options_with_origin_def)
qed


section \<open>Preflight requests\<close>







section \<open>Access-Control-Allow-Headers\<close>

text \<open>
  Claim C8 says that on allow \<open>Access-Control-Allow-Headers\<close> is the configured
  \<open>allowedHeaders\<close> joined by commas when set, otherwise the value of the request header
  \<open>Access-Control-Request-Headers\<close> when that header is present, and absent otherwise.
  The code echoes the request header under a truthiness test: a request header that is
  present with an empty value is not echoed, and the response header stays absent. And
  with a line feed in \<open>methods\<close> the call of \<open>setHeader\<close> before throws, so that
  \<open>allowedHeaders\<close>, though configured, is never set.
\<close>

theorem empty_request_headers_counterexample:
  "headers empty_request_headers_request ''access-control-request-headers'' = Some []
   \<and> cl_allowedHeaders (crosscors default_options) = None
   \<and> origin_match (crosscors default_options) empty_request_headers_request
       = Inr (Resolved True)
   \<and> getHeader (response (handleCors toUpperCase_ascii (crosscors default_options)
        empty_request_headers_request fresh_response)) ''Access-Control-Allow-Headers'' = None
   \<and> cl_allowedHeaders (crosscors (bad_methods_options\<lparr>allowedHeaders := Some [''X-Token'']\<rparr>))
       = Some [''X-Token'']
   \<and> origin_match (crosscors (bad_methods_options\<lparr>allowedHeaders := Some [''X-Token'']\<rparr>))
        get_request = Inr (Resolved True)
   \<and> getHeader (response (handleCors toUpperCase_ascii
        (crosscors (bad_methods_options\<lparr>allowedHeaders := Some [''X-Token'']\<rparr>))
        get_request fresh_response)) ''Access-Control-Allow-Headers'' = None"
  by (simp add: eval_defs fresh_response_def number_200_def request_def get_request_def
      empty_request_headers_request_def default_options_def bad_methods_options_def)


text \<open>
  Claim C8, as amended: on allow, on a response under construction and when the calls of
  \<open>setHeader\<close> up to this header pass valid values (the origin, the joined methods and
  the value of the header itself), \<open>Access-Control-Allow-Headers\<close> is the configured
  \<open>allowedHeaders\<close> joined by commas when \<open>allowedHeaders\<close> is set; otherwise it is the
  value of the request header \<open>Access-Control-Request-Headers\<close> when that header is
  present and not empty; otherwise \<open>handleCors\<close> does not set it, and it is absent unless
  the response had it before.
\<close>

theorem allow_headers_value:
  assumes "origin_match c req = Inr (Resolved True)"
    and "stage res = Building"
    and "values_ok (allow_origin_calls c req @ allow_methods_calls c @ allow_headers_calls c req)"
  shows "getHeader (response (handleCors toUpperCase c req res)) ''Access-Control-Allow-Headers'' =
           (case cl_allowedHeaders c of
              Some hs \<Rightarrow> Some (join '','' hs)
            | None \<Rightarrow>
                (case headers req ''access-control-request-headers'' of
                   Some v \<Rightarrow>
                     if v \<noteq> [] then Some v else getHeader res ''Access-Control-Allow-Headers''
                 | None \<Rightarrow> getHeader res ''Access-Control-Allow-Headers''))"
  by (simp add: getHeader_def names_lower response_headers_allowed [OF assms(1)]
      allow_headers_header_stays [OF assms(2,3)] store_all_append stored split: option.split)


text \<open>
  The amended claim for an echoed request header, for configured \<open>allowedHeaders\<close>, and
  for a request without the header.
\<close>

theorem allow_headers_value_witness:
  "getHeader (response (handleCors toUpperCase_ascii (crosscors default_options)
     preflight_request fresh_response)) ''Access-Control-Allow-Headers'' = Some ''X-Foo,X-Bar''
   \<and> getHeader (response (handleCors toUpperCase_ascii
        (crosscors (default_options\<lparr>allowedHeaders := Some [''Content-Type'', ''X-Token'']\<rparr>))
        preflight_request fresh_response))
     ''Access-Control-Allow-Headers'' = Some ''Content-Type,X-Token''
   \<and> getHeader (response (handleCors toUpperCase_ascii (crosscors default_options)
        get_request fresh_response)) ''Access-Control-Allow-Headers'' = None"
proof -
  let ?o = "default_options\<lparr>allowedHeaders := Some [''Content-Type'', ''X-Token'']\<rparr>"
  have a: "origin_match (crosscors default_options) preflight_request = Inr (Resolved True)"
    and b: "origin_match (crosscors ?o) preflight_request = Inr (Resolved True)"
    and c: "origin_match (crosscors default_options) get_request = Inr (Resolved True)"
    by (simp_all add: origin_match_def matchOrigin_def falsy_rule_def truthy_def crosscors_def
        request_def get_request_def preflight_request_def default_options_def)
  have s: "stage fresh_response = Building"
    by (simp add: fresh_response_def)
  have va: "values_ok (allow_origin_calls (crosscors default_options) preflight_request
      @ allow_methods_calls (crosscors default_options)
      @ allow_headers_calls (crosscors default_options) preflight_request)"
    and vb: "values_ok (allow_origin_calls (crosscors ?o) preflight_request
      @ allow_methods_calls (crosscors ?o) @ allow_headers_calls (crosscors ?o) preflight_request)"
    and vc: "values_ok (allow_origin_calls (crosscors default_options) get_request
      @ allow_methods_calls (crosscors default_options)
      @ allow_headers_calls (crosscors default_options) get_request)"
    by (simp_all add: values_ok_def calls_defs crosscors_def is_star_def header_value_ok_def
        invalid_header_char_def request_def get_request_def preflight_request_def
        default_options_def)
  from allow_headers_value [OF a s va, of toUpperCase_ascii]
    allow_headers_value [OF b s vb, of toUpperCase_ascii]
    allow_headers_value [OF c s vc, of toUpperCase_ascii]
  show ?thesis
    by (simp add: crosscors_def getHeader_def fresh_response_def request_def get_request_def
        preflight_request_def default_options_def)
qed


section \<open>Calling twice\<close>

text \<open>
  Claim C9: for every configuration whose origin policy is not a function, two calls of
  \<open>handleCors\<close> on equivalent request state give the same boolean and the same final
  response. The code breaks this for a \<open>RegExp\<close> with the \<open>g\<close> flag, which keeps
  \<open>lastIndex\<close> between calls of \<open>test\<close> and which \<open>matchOrigin\<close> never resets: under the
  policy \<open>/^https:\/\/a\.test$/g\<close> the first preflight from \<open>https://a.test\<close> is allowed
  and ended, and the second, on the closure that the first one left, is denied, although
  the origin matches the configured pattern.
\<close>

theorem global_flag_second_call_denied:
  "result (handleCors toUpperCase_ascii
     (crosscors (options_with_origin (OriginRegExp a_test_pattern_g)))
     preflight_request fresh_response) = Resolved True
   \<and> result (handleCors toUpperCase_ascii
        (closure_after (handleCors toUpperCase_ascii
           (crosscors (options_with_origin (OriginRegExp a_test_pattern_g)))
           preflight_request fresh_response))
        preflight_request fresh_response) = Resolved False"
  by (simp add: eval_defs fresh_response_def number_200_def request_def preflight_request_def
      default_options_def options_with_origin_def whole_string_def a_test_pattern_def
      a_test_pattern_g_def)


text \<open>
  Without the \<open>g\<close> and \<open>y\<close> flags a call leaves the closure as it was, and a second call
  on the same request and an equal response gives the same promise and the same
  response.
\<close>

lemma flagless_policy_calls_agree:
  assumes "static_policy (cl_origin c)"
  shows "closure_after (handleCors toUpperCase c req res) = c
       \<and> result (handleCors toUpperCase (closure_after (handleCors toUpperCase c req res)) req res)
           = result (handleCors toUpperCase c req res)
       \<and> response (handleCors toUpperCase (closure_after (handleCors toUpperCase c req res)) req res)
           = response (handleCors toUpperCase c req res)"
  by (simp add: static_closure_after [OF assms])


section \<open>A request without method\<close>

text \<open>
  Claim C10 says that for every allowed request whose \<open>method\<close> is absent, \<open>handleCors\<close>
  sets the headers of an allowed request, leaves status and body untouched and returns
  false, with no error raised. With a line feed in \<open>methods\<close> the call of \<open>setHeader\<close>
  throws and the promise of \<open>handleCors\<close> is rejected.
\<close>

theorem bad_methods_counterexample:
  "origin_match (crosscors bad_methods_options) no_method_request = Inr (Resolved True)
   \<and> method_field no_method_request = None
   \<and> result (handleCors toUpperCase_ascii (crosscors bad_methods_options) no_method_request
        fresh_response) = Rejected (TypeError ''ERR_INVALID_CHAR'')"
  by (simp add: eval_defs fresh_response_def number_200_def request_def no_method_request_def
      default_options_def bad_methods_options_def)


text \<open>
  Claim C10, as amended: for every allowed request whose \<open>method\<close> is absent, on a
  response under construction and when every value passed to \<open>setHeader\<close> is a valid
  header value, \<open>handleCors\<close> normalizes the method to the empty string and treats the
  request as no preflight: it sets each of the seven headers as configured
  (\<open>Access-Control-Allow-Origin\<close> and \<open>Vary\<close> for a non-empty origin,
  \<open>Access-Control-Allow-Methods\<close> always, \<open>Access-Control-Allow-Headers\<close>,
  \<open>Access-Control-Expose-Headers\<close>, \<open>Access-Control-Allow-Credentials\<close> and
  \<open>Access-Control-Max-Age\<close> when configured or echoed), leaves status code, body and stage
  untouched, and its promise resolves to false.
\<close>

theorem absent_method_is_not_preflight:
  assumes "origin_match c req = Inr (Resolved True)" and "method_field req = None"
    and "stage res = Building" and "values_ok (setHeader_calls c req)"
  shows "reqMethod toUpperCase req = []
       \<and> result (handleCors toUpperCase c req res) = Resolved False
       \<and> cors_headers_set c req res (response (handleCors toUpperCase c req res))
       \<and> statusCode (response (handleCors toUpperCase c req res)) = statusCode res
       \<and> body (response (handleCors toUpperCase c req res)) = body res
       \<and> stage (response (handleCors toUpperCase c req res)) = stage res"
proof -
  from assms(2) have m: "reqMethod toUpperCase req = []"
    by (simp add: reqMethod_def)
  then have "reqMethod toUpperCase req \<noteq> ''OPTIONS'' \<or> cl_preflightContinue c"
    by simp
  from handleCors_no_end [OF assms(1,3,4) this] m show ?thesis
    by (simp add: store_all_fields store_all_cors_headers_set)
qed


text \<open>The amended claim at options that set every header.\<close>

theorem absent_method_is_not_preflight_witness:
  "reqMethod toUpperCase_ascii no_method_request = []
   \<and> result (handleCors toUpperCase_ascii (crosscors full_options) no_method_request
        fresh_response) = Resolved False
   \<and> getHeader (response (handleCors toUpperCase_ascii (crosscors full_options)
        no_method_request fresh_response)) ''Access-Control-Allow-Origin''
       = Some ''https://a.test''
   \<and> getHeader (response (handleCors toUpperCase_ascii (crosscors full_options)
        no_method_request fresh_response)) ''Vary'' = Some ''Origin''
   \<and> getHeader (response (handleCors toUpperCase_ascii (crosscors full_options)
        no_method_request fresh_response)) ''Access-Control-Allow-Methods'' = Some ''GET,POST''
   \<and> getHeader (response (handleCors toUpperCase_ascii (crosscors full_options)
        no_method_request fresh_response)) ''Access-Control-Allow-Headers''
       = Some ''Content-Type,X-Token''
   \<and> getHeader (response (handleCors toUpperCase_ascii (crosscors full_options)
        no_method_request fresh_response)) ''Access-Control-Expose-Headers'' = Some ''X-Total''
   \<and> getHeader (response (handleCors toUpperCase_ascii (crosscors full_options)
        no_method_request fresh_response)) ''Access-Control-Allow-Credentials'' = Some ''true''
   \<and> getHeader (response (handleCors toUpperCase_ascii (crosscors full_options)
        no_method_request fresh_response)) ''Access-Control-Max-Age'' = Some ''3600''
   \<and> statusCode (response (handleCors toUpperCase_ascii (crosscors full_options)
        no_method_request fresh_response)) = number_200
   \<and> stage (response (handleCors toUpperCase_ascii (crosscors full_options)
        no_method_request fresh_response)) = Building"
proof -
  have a: "origin_match (crosscors full_options) no_method_request = Inr (Resolved True)"
    by (simp add: origin_match_def matchOrigin_def falsy_rule_def truthy_def crosscors_def
        request_def no_method_request_def full_options_def)
  have m: "method_field no_method_request = None"
    by (simp add: request_def no_method_request_def)
  have s: "stage fresh_response = Building"
    by (simp add: fresh_response_def)
  have v: "values_ok (setHeader_calls (crosscors full_options) no_method_request)"
    by (simp add: values_ok_def setHeader_calls_def calls_defs crosscors_def is_star_def
        header_value_ok_def invalid_header_char_def request_def no_method_request_def
        full_options_def number_3600_def)
  from absent_method_is_not_preflight [OF a m s v, of toUpperCase_ascii] show ?thesis
    by (simp add: cors_headers_set_def crosscors_def is_star_def fresh_response_def request_def
        no_method_request_def full_options_def number_3600_def)
qed

end
